theory Spec2Isabelle
  imports Main "HOL-Library.List_Lexorder" "HOL-Library.Char_ord"
begin

section \<open>JavaScript values\<close>

text \<open>
  The server is \<^verbatim>\<open>dist/index.js\<close>, one class \<^verbatim>\<open>BitbucketServer\<close> whose methods each
  translate a tool call into requests against the Bitbucket REST API. A tool argument or
  a configuration entry that is absent is \<^verbatim>\<open>undefined\<close> in the source and \<open>None\<close> here.
  Numbers are integers (\<open>int\<close>); fractional numbers are outside the model. \<^verbatim>\<open>NaN\<close> arises
  in one place, the time of a text that is no date, and is \<open>None\<close> there. Texts are
  compared as JavaScript compares strings, character by character.
\<close>

definition truthy :: "string option \<Rightarrow> bool" where
  \<comment> \<open>the truth value of a string-or-undefined: the empty string is falsy\<close>
  "truthy v = (case v of None \<Rightarrow> False | Some s \<Rightarrow> s \<noteq> [])"

definition or_else :: "string option \<Rightarrow> string option \<Rightarrow> string option" where
  \<comment> \<open>\<^verbatim>\<open>a || b\<close>\<close>
  "or_else a b = (if truthy a then a else b)"

definition interpolate :: "string option \<Rightarrow> string" where
  \<comment> \<open>\<^verbatim>\<open>${v}\<close> inside a template literal\<close>
  "interpolate v = (case v of None \<Rightarrow> ''undefined'' | Some s \<Rightarrow> s)"

fun string_of_nat :: "nat \<Rightarrow> string" where
  \<comment> \<open>\<^verbatim>\<open>${n}\<close> for a non-negative integer: its decimal digits\<close>
  "string_of_nat n =
     (if n < 10 then [char_of (48 + n)]
      else string_of_nat (n div 10) @ [char_of (48 + n mod 10)])"

declare string_of_nat.simps [simp del]

subsection \<open>Errors\<close>

datatype error_code = InvalidParams | InternalError | MethodNotFound

datatype js_error =
    AxiosError string "string option"
      \<comment> \<open>a failed request: \<^verbatim>\<open>error.message\<close> and \<^verbatim>\<open>error.response?.data.message\<close>\<close>
  | TypeError string
  | McpError error_code string
      \<comment> \<open>\<^verbatim>\<open>new McpError(code, message)\<close>\<close>

fun code_number :: "error_code \<Rightarrow> string" where
  "code_number InvalidParams = ''-32602''"
| "code_number InternalError = ''-32603''"
| "code_number MethodNotFound = ''-32601''"

fun error_message :: "js_error \<Rightarrow> string" where
  \<comment> \<open>\<^verbatim>\<open>error.message\<close>; the MCP SDK's \<^verbatim>\<open>McpError\<close> constructor prefixes the code\<close>
  "error_message (AxiosError m r) = m"
| "error_message (TypeError m) = m"
| "error_message (McpError c m) = ''MCP error '' @ code_number c @ '': '' @ m"

section \<open>The Bitbucket resources the methods read and write\<close>

text \<open>
  The resources are typed as the interfaces of the TypeScript source type them
  (\<^verbatim>\<open>BitbucketPullRequest\<close>, \<^verbatim>\<open>BitbucketParticipant\<close>, \<^verbatim>\<open>InlineCommentInline\<close>), with the
  fields the methods read. A field the code tests for absence is an \<open>option\<close>.
\<close>

record participant =
  user_nickname :: "string option"  \<comment> \<open>\<^verbatim>\<open>participant.user?.nickname\<close>\<close>
  role :: string
  approved :: "bool option"

record repository_ref =
  ref_name :: string
  full_name :: string

record pull_request =
  pr_id :: nat
  pr_title :: string
  pr_state :: string
  created_on :: string
  updated_on :: string  \<comment> \<open>the text of the response, such as \<^verbatim>\<open>2024-03-01T10:00:00.123456+00:00\<close>\<close>
  participants :: "participant list option"
  repository :: "repository_ref option"

record repository =
  repo_name :: string

datatype commit_ref =
    NoCommit  \<comment> \<open>\<^verbatim>\<open>source\<close> or \<^verbatim>\<open>source.commit\<close> is missing: reading \<^verbatim>\<open>.hash\<close> throws\<close>
  | Commit "string option"  \<comment> \<open>\<^verbatim>\<open>source.commit.hash\<close>\<close>

record pull_request_resource =
  source_commit :: commit_ref
  destination_commit :: commit_ref

record inline_position =
  inline_path :: "string option"
  inline_from :: "int option"
  inline_to :: "int option"

record comment =
  comment_id :: nat
  comment_content :: string
  comment_pending :: "bool option"
  comment_inline :: "inline_position option"

datatype payload =
    RepositoryPage "repository list option"  \<comment> \<open>\<^verbatim>\<open>data.values\<close> of a repository listing\<close>
  | PullRequestPage "pull_request list option"
  | PullRequestResource pull_request_resource
  | CommentPage "comment list option"
  | CommentResource comment
  | TextBody string
  | OtherJson string

fun repository_values :: "payload \<Rightarrow> repository list option" where
  "repository_values (RepositoryPage v) = v"
| "repository_values _ = None"

fun pull_request_values :: "payload \<Rightarrow> pull_request list option" where
  "pull_request_values (PullRequestPage v) = v"
| "pull_request_values _ = None"

fun comment_values :: "payload \<Rightarrow> comment list option" where
  "comment_values (CommentPage v) = v"
| "comment_values _ = None"

section \<open>Requests and the HTTP client\<close>

datatype param = PString string | PNumber int

record request_config =
  params :: "(string \<times> param) list"
  headers :: "(string \<times> string) list"
  responseType :: "string option"
  maxRedirects :: "nat option"

definition no_config :: request_config where
  \<comment> \<open>\<^verbatim>\<open>this.api.get(url)\<close> with no second argument\<close>
  "no_config = \<lparr>params = [], headers = [], responseType = None, maxRedirects = None\<rparr>"

record pull_request_body =
  body_title :: "string option"
  body_description :: "string option"
  source_branch_name :: "string option"
  destination_branch_name :: "string option"
  reviewers :: "string list"  \<comment> \<open>each \<^verbatim>\<open>{username}\<close>\<close>
  close_source_branch :: bool
  draft :: bool

record comment_data =
  content_raw :: "string option"
  data_pending :: "bool option"
  data_inline :: "inline_position option"

record comment_update =
  update_content :: string
  update_pending :: bool
  update_inline :: "inline_position option"

datatype body =
    PullRequestBody pull_request_body
  | CommentData comment_data
  | CommentUpdate comment_update

datatype request =
    Get string request_config
  | Post string body
  | Put string body

text \<open>
  Bitbucket is a server with a state of type \<open>'w\<close>: it answers a request with a failure
  (what axios throws) or a payload (\<^verbatim>\<open>response.data\<close>), and moves to a new state. A session
  is the list of requests issued so far together with the state of the server.
\<close>

type_synonym 'w server = "request \<Rightarrow> 'w \<Rightarrow> (js_error + payload) \<times> 'w"

type_synonym 'w session = "request list \<times> 'w"

definition api_request :: "'w server \<Rightarrow> request \<Rightarrow> 'w session \<Rightarrow> (js_error + payload) \<times> 'w session" where
  "api_request srv rq st =
     (case st of (issued, w) \<Rightarrow>
        (case srv rq w of (answer, w') \<Rightarrow> (answer, (issued @ [rq], w'))))"

record bitbucket_config =
  baseUrl :: string
  token :: "string option"
  username :: "string option"
  password :: "string option"
  defaultWorkspace :: "string option"

section \<open>Tool results\<close>

record pending_review_report =
  pending_review_prs :: "pull_request list"
  total_found :: nat
  searched_repositories :: nat
  report_user :: string
  report_workspace :: string

datatype publish_result =
    Published nat payload  \<comment> \<open>\<^verbatim>\<open>{commentId, status: "published", data}\<close>\<close>
  | PublishError nat string  \<comment> \<open>\<^verbatim>\<open>{commentId, status: "error", error}\<close>\<close>

datatype tool_result =
    Verbatim payload  \<comment> \<open>\<^verbatim>\<open>text: response.data\<close>\<close>
  | Stringified payload  \<comment> \<open>\<^verbatim>\<open>text: JSON.stringify(response.data, null, 2)\<close>\<close>
  | Message string
  | PendingReviewReport pending_review_report
  | PublishReport string "publish_result list"

section \<open>getPendingReviewPRs\<close>

text \<open>
  The method resolves the repositories to check, scans them in batches of five, collects
  the pull requests that wait for the configured user, cuts the collection to the limit
  and sorts it. The requests of a batch are started in the order of the batch, and their
  results are joined in that order by \<^verbatim>\<open>Promise.all\<close>; the model issues them one after the
  other in that order. Calls of the logger write to a file and are left out.
\<close>

definition is_pending_reviewer :: "string \<Rightarrow> participant \<Rightarrow> bool" where
  "is_pending_reviewer currentUserNickname p \<longleftrightarrow>
     user_nickname p = Some currentUserNickname \<and> role p = ''REVIEWER'' \<and> approved p = Some False"

definition awaits_review :: "string \<Rightarrow> pull_request \<Rightarrow> bool" where
  \<comment> \<open>the callback of \<^verbatim>\<open>prsResponse.data.values.filter\<close>\<close>
  "awaits_review currentUserNickname pr =
     (case participants pr of
        None \<Rightarrow> False
      | Some ps \<Rightarrow> find (is_pending_reviewer currentUserNickname) ps \<noteq> None)"

definition pull_requests_request :: "string \<Rightarrow> string \<Rightarrow> int \<Rightarrow> request" where
  "pull_requests_request wsName repoSlug limit =
     Get (''/repositories/'' @ wsName @ ''/'' @ repoSlug @ ''/pullrequests'')
       (no_config\<lparr>params :=
          [(''state'', PString ''OPEN''),
           (''pagelen'', PNumber (min limit 50)),
           (''fields'', PString ''values.id,values.title,values.description,values.state,values.created_on,values.updated_on,values.author,values.source,values.destination,values.participants.user.nickname,values.participants.role,values.participants.approved,values.links'')]\<rparr>)"

definition check_repository ::
  "'w server \<Rightarrow> string \<Rightarrow> string \<Rightarrow> int \<Rightarrow> string \<Rightarrow> 'w session \<Rightarrow> pull_request list \<times> 'w session" where
  \<comment> \<open>the async callback of \<^verbatim>\<open>batch.map\<close>; its \<^verbatim>\<open>catch\<close> returns \<^verbatim>\<open>[]\<close>\<close>
  "check_repository srv wsName currentUserNickname limit repoSlug st =
     (case api_request srv (pull_requests_request wsName repoSlug limit) st of
        (Inl e, st') \<Rightarrow> ([], st')
      | (Inr prsResponse, st') \<Rightarrow>
          (case pull_request_values prsResponse of
             None \<Rightarrow> ([], st')
           | Some prs \<Rightarrow>
               (map (\<lambda>pr. pr\<lparr>repository := Some \<lparr>ref_name = repoSlug, full_name = wsName @ ''/'' @ repoSlug\<rparr>\<rparr>)
                  (filter (awaits_review currentUserNickname) prs), st')))"

fun check_batch ::
  "'w server \<Rightarrow> string \<Rightarrow> string \<Rightarrow> int \<Rightarrow> string list \<Rightarrow> 'w session \<Rightarrow> pull_request list list \<times> 'w session" where
  \<comment> \<open>\<^verbatim>\<open>await Promise.all(batch.map(...))\<close>: the requests of a batch, in the order of the batch\<close>
  "check_batch srv wsName user limit [] st = ([], st)"
| "check_batch srv wsName user limit (repoSlug # rest) st =
     (case check_repository srv wsName user limit repoSlug st of
        (repoPRs, st') \<Rightarrow>
          (case check_batch srv wsName user limit rest st' of
             (others, st'') \<Rightarrow> (repoPRs # others, st'')))"

fun push_results :: "int \<Rightarrow> pull_request list \<Rightarrow> pull_request list list \<Rightarrow> pull_request list" where
  \<comment> \<open>the loop \<^verbatim>\<open>for (const repoPRs of batchResults)\<close> with its \<^verbatim>\<open>break\<close>\<close>
  "push_results limit pendingPRs [] = pendingPRs"
| "push_results limit pendingPRs (repoPRs # rest) =
     (if limit \<le> int (length (pendingPRs @ repoPRs)) then pendingPRs @ repoPRs
      else push_results limit (pendingPRs @ repoPRs) rest)"

definition batchSize :: nat where
  "batchSize = 5"

function process_batches ::
  "'w server \<Rightarrow> string \<Rightarrow> string \<Rightarrow> int \<Rightarrow> string list \<Rightarrow> nat \<Rightarrow> pull_request list \<Rightarrow> 'w session
     \<Rightarrow> pull_request list \<times> 'w session" where
  \<comment> \<open>the loop \<^verbatim>\<open>for (let i = 0; i < repositoriesToCheck.length; i += batchSize)\<close>\<close>
  "process_batches srv wsName user limit repositoriesToCheck i pendingPRs st =
     (if i < length repositoriesToCheck then
        (case check_batch srv wsName user limit (take batchSize (drop i repositoriesToCheck)) st of
           (batchResults, st') \<Rightarrow>
             (if limit \<le> int (length (push_results limit pendingPRs batchResults))
              then (push_results limit pendingPRs batchResults, st')
              else process_batches srv wsName user limit repositoriesToCheck (i + batchSize)
                     (push_results limit pendingPRs batchResults) st'))
      else (pendingPRs, st))"
  by pat_completeness auto
termination
  by (relation "measure (\<lambda>(srv, wsName, user, limit, repos, i, pendingPRs, st). length repos - i)")
    (auto simp: batchSize_def)

declare process_batches.simps [simp del]

definition slice0 :: "'a list \<Rightarrow> int \<Rightarrow> 'a list" where
  \<comment> \<open>\<^verbatim>\<open>xs.slice(0, n)\<close>: a negative end counts from the end of the array\<close>
  "slice0 xs n = (if n < 0 then take (nat (int (length xs) + n)) xs else take (nat n) xs)"

text \<open>
  \<^verbatim>\<open>Date\<close> belongs to the runtime, so the methods take it as a parameter: \<open>getTime s\<close> is the
  value of \<^verbatim>\<open>new Date(s).getTime()\<close>, the instant in milliseconds that the text \<open>s\<close> is read
  as, and \<open>None\<close> when the text is read as no date and the value is \<^verbatim>\<open>NaN\<close>. A difference
  with \<^verbatim>\<open>NaN\<close> is \<^verbatim>\<open>NaN\<close>.
\<close>

definition by_updated_desc :: "(string \<Rightarrow> int option) \<Rightarrow> pull_request \<Rightarrow> pull_request \<Rightarrow> int option" where
  \<comment> \<open>the comparator \<^verbatim>\<open>(a, b) => new Date(b.updated_on).getTime() - new Date(a.updated_on).getTime()\<close>\<close>
  "by_updated_desc getTime a b =
     (case getTime (updated_on b) of
        None \<Rightarrow> None
      | Some tb \<Rightarrow> (case getTime (updated_on a) of None \<Rightarrow> None | Some ta \<Rightarrow> Some (tb - ta)))"

definition nan_as_zero :: "int option \<Rightarrow> int" where
  \<comment> \<open>the sort reads a comparator result that is \<^verbatim>\<open>NaN\<close> as \<open>0\<close>\<close>
  "nan_as_zero v = (case v of None \<Rightarrow> 0 | Some n \<Rightarrow> n)"

fun insert_by :: "('a \<Rightarrow> 'a \<Rightarrow> int option) \<Rightarrow> 'a \<Rightarrow> 'a list \<Rightarrow> 'a list" where
  "insert_by cmp x [] = [x]"
| "insert_by cmp x (y # ys) =
     (if nan_as_zero (cmp x y) \<le> 0 then x # y # ys else y # insert_by cmp x ys)"

definition js_sort :: "('a \<Rightarrow> 'a \<Rightarrow> int option) \<Rightarrow> 'a list \<Rightarrow> 'a list" where
  \<comment> \<open>\<^verbatim>\<open>Array.prototype.sort(cmp)\<close>, a stable sort: \<open>a\<close> stays before \<open>b\<close> unless \<open>cmp a b > 0\<close>.
      Where the comparator is not consistent the language leaves the order to the engine;
      nothing is proved of that case.\<close>
  "js_sort cmp xs = foldr (insert_by cmp) xs []"

definition repositories_request :: "string \<Rightarrow> request" where
  "repositories_request wsName =
     Get (''/repositories/'' @ wsName) (no_config\<lparr>params := [(''pagelen'', PNumber 100)]\<rparr>)"

definition resolve_repositories ::
  "'w server \<Rightarrow> string \<Rightarrow> string list option \<Rightarrow> 'w session \<Rightarrow> (js_error + string list) \<times> 'w session" where
  \<comment> \<open>\<^verbatim>\<open>repositoriesToCheck\<close>: the given list if it has an element, the workspace's repositories otherwise\<close>
  "resolve_repositories srv wsName repositoryList st =
     (case repositoryList of
        Some (r # rs) \<Rightarrow> (Inr (r # rs), st)
      | _ \<Rightarrow>
          (case api_request srv (repositories_request wsName) st of
             (Inl e, st') \<Rightarrow> (Inl e, st')
           | (Inr reposResponse, st') \<Rightarrow>
               (case repository_values reposResponse of
                  None \<Rightarrow> (Inl (McpError InternalError ''Failed to fetch repositories''), st')
                | Some repos \<Rightarrow> (Inr (map repo_name repos), st'))))"

definition pending_review_failed :: "js_error \<Rightarrow> js_error" where
  \<comment> \<open>the outer \<^verbatim>\<open>catch\<close> of the method\<close>
  "pending_review_failed e =
     McpError InternalError (''Failed to get pending review PRs: '' @ error_message e)"

definition limit_or_default :: "int option \<Rightarrow> int" where
  \<comment> \<open>the default parameter \<^verbatim>\<open>limit = 50\<close>\<close>
  "limit_or_default limit_arg = (case limit_arg of None \<Rightarrow> 50 | Some n \<Rightarrow> n)"

definition workspace_missing :: js_error where
  "workspace_missing = McpError InvalidParams
     ''Workspace must be provided either as a parameter or through BITBUCKET_WORKSPACE environment variable''"

definition username_missing :: js_error where
  "username_missing = McpError InvalidParams
     ''Username must be provided through BITBUCKET_USERNAME environment variable''"

definition getPendingReviewPRs ::
  "(string \<Rightarrow> int option) \<Rightarrow> bitbucket_config \<Rightarrow> 'w server \<Rightarrow> string option \<Rightarrow> int option \<Rightarrow> string list option \<Rightarrow> 'w session
     \<Rightarrow> (js_error + tool_result) \<times> 'w session" where
  "getPendingReviewPRs getTime config srv workspace limit_arg repositoryList st =
     (let limit = limit_or_default limit_arg
      in case or_else workspace (defaultWorkspace config) of
           None \<Rightarrow> (Inl (pending_review_failed workspace_missing), st)
         | Some wsName \<Rightarrow>
             if wsName = [] then (Inl (pending_review_failed workspace_missing), st)
             else
               (case username config of
                  None \<Rightarrow> (Inl (pending_review_failed username_missing), st)
                | Some currentUserNickname \<Rightarrow>
                    if currentUserNickname = [] then (Inl (pending_review_failed username_missing), st)
                    else
                      (case resolve_repositories srv wsName repositoryList st of
                         (Inl e, st1) \<Rightarrow> (Inl (pending_review_failed e), st1)
                       | (Inr repositoriesToCheck, st1) \<Rightarrow>
                           (case process_batches srv wsName currentUserNickname limit
                                   repositoriesToCheck 0 [] st1 of
                              (pendingPRs, st2) \<Rightarrow>
                                (let finalResults = js_sort (by_updated_desc getTime) (slice0 pendingPRs limit)
                                 in (Inr (PendingReviewReport
                                       \<lparr>pending_review_prs = finalResults,
                                        total_found = length finalResults,
                                        searched_repositories = length repositoriesToCheck,
                                        report_user = currentUserNickname,
                                        report_workspace = wsName\<rparr>), st2))))))"

definition returned_prs :: "(js_error + tool_result) \<times> 'w session \<Rightarrow> pull_request list" where
  \<comment> \<open>the \<^verbatim>\<open>pending_review_prs\<close> list of an outcome; no list when the method throws\<close>
  "returned_prs outcome =
     (case fst outcome of Inr (PendingReviewReport r) \<Rightarrow> pending_review_prs r | _ \<Rightarrow> [])"

section \<open>getRepository and the call handler\<close>

definition getRepository ::
  "'w server \<Rightarrow> string option \<Rightarrow> string option \<Rightarrow> 'w session \<Rightarrow> (js_error + tool_result) \<times> 'w session" where
  "getRepository srv workspace repo_slug st =
     (case api_request srv
             (Get (''/repositories/'' @ interpolate workspace @ ''/'' @ interpolate repo_slug) no_config) st of
        (Inl e, st') \<Rightarrow>
          (Inl (McpError InternalError (''Failed to get repository: '' @ error_message e)), st')
      | (Inr d, st') \<Rightarrow> (Inr (Stringified d), st'))"

definition tool_execution_error :: "js_error \<Rightarrow> js_error" where
  \<comment> \<open>the \<^verbatim>\<open>catch\<close> of the call handler: an axios error is wrapped, any other is thrown again\<close>
  "tool_execution_error e =
     (case e of
        AxiosError m r \<Rightarrow>
          McpError InternalError (''Bitbucket API error: '' @ (case r of None \<Rightarrow> m | Some rm \<Rightarrow> rm))
      | _ \<Rightarrow> e)"

definition call_getRepository ::
  "'w server \<Rightarrow> (string \<rightharpoonup> string) option \<Rightarrow> 'w session \<Rightarrow> (js_error + tool_result) \<times> 'w session" where
  \<comment> \<open>the call handler on \<^verbatim>\<open>case "getRepository"\<close>, with \<^verbatim>\<open>args = request.params.arguments ?? {}\<close>\<close>
  "call_getRepository srv arguments st =
     (let args = (case arguments of None \<Rightarrow> Map.empty | Some a \<Rightarrow> a)
      in case getRepository srv (args ''workspace'') (args ''repo_slug'') st of
           (Inl e, st') \<Rightarrow> (Inl (tool_execution_error e), st')
         | (Inr r, st') \<Rightarrow> (Inr r, st'))"

section \<open>getPullRequestDiff\<close>

fun source_of :: "payload \<Rightarrow> commit_ref" where
  "source_of (PullRequestResource pr) = source_commit pr"
| "source_of _ = NoCommit"

fun destination_of :: "payload \<Rightarrow> commit_ref" where
  "destination_of (PullRequestResource pr) = destination_commit pr"
| "destination_of _ = NoCommit"

fun commit_hash :: "commit_ref \<Rightarrow> js_error + string option" where
  "commit_hash NoCommit = Inl (TypeError ''Cannot read properties of undefined'')"
| "commit_hash (Commit h) = Inr h"

definition diff_failed :: "js_error \<Rightarrow> js_error" where
  "diff_failed e = McpError InternalError (''Failed to get pull request diff: '' @ error_message e)"

definition diff_config :: request_config where
  "diff_config =
     \<lparr>params = [], headers = [(''Accept'', ''text/plain'')], responseType = Some ''text'',
      maxRedirects = Some 5\<rparr>"

definition diff_url :: "string option \<Rightarrow> string option \<Rightarrow> string option \<Rightarrow> string option \<Rightarrow> string option \<Rightarrow> string" where
  "diff_url workspace repo_slug sourceCommit destinationCommit pull_request_id =
     ''/repositories/'' @ interpolate workspace @ ''/'' @ interpolate repo_slug @ ''/diff/''
       @ interpolate workspace @ ''/'' @ interpolate repo_slug @ '':'' @ interpolate sourceCommit
       @ ''%0D'' @ interpolate destinationCommit
       @ ''?from_pullrequest_id='' @ interpolate pull_request_id @ ''&topic=true''"

definition pull_request_url :: "string option \<Rightarrow> string option \<Rightarrow> string option \<Rightarrow> string" where
  "pull_request_url workspace repo_slug pull_request_id =
     ''/repositories/'' @ interpolate workspace @ ''/'' @ interpolate repo_slug
       @ ''/pullrequests/'' @ interpolate pull_request_id"

definition getPullRequestDiff ::
  "'w server \<Rightarrow> string option \<Rightarrow> string option \<Rightarrow> string option \<Rightarrow> 'w session
     \<Rightarrow> (js_error + tool_result) \<times> 'w session" where
  "getPullRequestDiff srv workspace repo_slug pull_request_id st =
     (case api_request srv (Get (pull_request_url workspace repo_slug pull_request_id) no_config) st of
        (Inl e, st1) \<Rightarrow> (Inl (diff_failed e), st1)
      | (Inr prResponse, st1) \<Rightarrow>
          (case commit_hash (source_of prResponse) of
             Inl e \<Rightarrow> (Inl (diff_failed e), st1)
           | Inr sourceCommit \<Rightarrow>
               (case commit_hash (destination_of prResponse) of
                  Inl e \<Rightarrow> (Inl (diff_failed e), st1)
                | Inr destinationCommit \<Rightarrow>
                    (case api_request srv
                            (Get (diff_url workspace repo_slug sourceCommit destinationCommit pull_request_id)
                               diff_config) st1 of
                       (Inl e, st2) \<Rightarrow> (Inl (diff_failed e), st2)
                     | (Inr response, st2) \<Rightarrow> (Inr (Verbatim response), st2)))))"

section \<open>publishPendingComments\<close>

definition comments_url :: "string option \<Rightarrow> string option \<Rightarrow> string option \<Rightarrow> string" where
  "comments_url workspace repo_slug pull_request_id =
     pull_request_url workspace repo_slug pull_request_id @ ''/comments''"

definition publish_request :: "string option \<Rightarrow> string option \<Rightarrow> string option \<Rightarrow> comment \<Rightarrow> request" where
  "publish_request workspace repo_slug pull_request_id c =
     Put (comments_url workspace repo_slug pull_request_id @ ''/'' @ string_of_nat (comment_id c))
       (CommentUpdate
          \<lparr>update_content = comment_content c, update_pending = False,
           update_inline = comment_inline c\<rparr>)"

fun publish_each ::
  "'w server \<Rightarrow> string option \<Rightarrow> string option \<Rightarrow> string option \<Rightarrow> comment list \<Rightarrow> 'w session
     \<Rightarrow> publish_result list \<times> 'w session" where
  \<comment> \<open>the loop \<^verbatim>\<open>for (const comment of pendingComments)\<close>, each update in its own \<^verbatim>\<open>try\<close>\<close>
  "publish_each srv workspace repo_slug pull_request_id [] st = ([], st)"
| "publish_each srv workspace repo_slug pull_request_id (c # cs) st =
     (case api_request srv (publish_request workspace repo_slug pull_request_id c) st of
        (answer, st') \<Rightarrow>
          (case publish_each srv workspace repo_slug pull_request_id cs st' of
             (results, st'') \<Rightarrow>
               ((case answer of
                   Inl e \<Rightarrow> PublishError (comment_id c) (error_message e)
                 | Inr d \<Rightarrow> Published (comment_id c) d) # results, st'')))"

definition is_pending :: "comment \<Rightarrow> bool" where
  "is_pending c \<longleftrightarrow> comment_pending c = Some True"

definition pending_comments :: "payload \<Rightarrow> comment list" where
  \<comment> \<open>\<^verbatim>\<open>(commentsResponse.data.values || []).filter((comment) => comment.pending === true)\<close>\<close>
  "pending_comments commentsResponse =
     filter is_pending (case comment_values commentsResponse of None \<Rightarrow> [] | Some cs \<Rightarrow> cs)"

definition publishPendingComments ::
  "'w server \<Rightarrow> string option \<Rightarrow> string option \<Rightarrow> string option \<Rightarrow> 'w session
     \<Rightarrow> (js_error + tool_result) \<times> 'w session" where
  "publishPendingComments srv workspace repo_slug pull_request_id st =
     (case api_request srv (Get (comments_url workspace repo_slug pull_request_id) no_config) st of
        (Inl e, st1) \<Rightarrow>
          (Inl (McpError InternalError (''Failed to publish pending comments: '' @ error_message e)), st1)
      | (Inr commentsResponse, st1) \<Rightarrow>
          (if length (pending_comments commentsResponse) = 0 then
             (Inr (Message ''No pending comments found to publish.''), st1)
           else
             (case publish_each srv workspace repo_slug pull_request_id
                     (pending_comments commentsResponse) st1 of
                (publishResults, st2) \<Rightarrow>
                  (Inr (PublishReport
                     (''Published '' @ string_of_nat (length (pending_comments commentsResponse))
                        @ '' pending comments'')
                     publishResults), st2))))"

section \<open>createPullRequest and createDraftPullRequest\<close>

definition createPullRequest ::
  "'w server \<Rightarrow> string option \<Rightarrow> string option \<Rightarrow> string option \<Rightarrow> string option \<Rightarrow> string option
     \<Rightarrow> string option \<Rightarrow> string list option \<Rightarrow> bool option \<Rightarrow> 'w session
     \<Rightarrow> (js_error + tool_result) \<times> 'w session" where
  "createPullRequest srv workspace repo_slug title description sourceBranch targetBranch reviewers_arg
       draft_arg st =
     (let reviewersArray = (case reviewers_arg of None \<Rightarrow> [] | Some usernames \<Rightarrow> usernames)
      in case api_request srv
                (Post (''/repositories/'' @ interpolate workspace @ ''/'' @ interpolate repo_slug
                         @ ''/pullrequests'')
                   (PullRequestBody
                      \<lparr>body_title = title,
                       body_description = description,
                       source_branch_name = sourceBranch,
                       destination_branch_name = targetBranch,
                       reviewers = reviewersArray,
                       close_source_branch = True,
                       draft = (draft_arg = Some True)\<rparr>)) st of
           (Inl e, st') \<Rightarrow>
             (Inl (McpError InternalError (''Failed to create pull request: '' @ error_message e)), st')
         | (Inr d, st') \<Rightarrow> (Inr (Stringified d), st'))"

definition createDraftPullRequest ::
  "'w server \<Rightarrow> string option \<Rightarrow> string option \<Rightarrow> string option \<Rightarrow> string option \<Rightarrow> string option
     \<Rightarrow> string option \<Rightarrow> string list option \<Rightarrow> 'w session
     \<Rightarrow> (js_error + tool_result) \<times> 'w session" where
  "createDraftPullRequest srv workspace repo_slug title description sourceBranch targetBranch reviewers_arg st =
     (case createPullRequest srv workspace repo_slug title description sourceBranch targetBranch
             reviewers_arg (Some True) st of
        (Inl e, st') \<Rightarrow>
          (Inl (McpError InternalError (''Failed to create draft pull request: '' @ error_message e)), st')
      | (Inr r, st') \<Rightarrow> (Inr r, st'))"

section \<open>addPullRequestComment and addPendingPullRequestComment\<close>

definition commentData :: "string option \<Rightarrow> inline_position option \<Rightarrow> bool option \<Rightarrow> comment_data" where
  \<comment> \<open>\<^verbatim>\<open>pending\<close> and \<^verbatim>\<open>inline\<close> are set only when given; \<^verbatim>\<open>from\<close> and \<^verbatim>\<open>to\<close> likewise\<close>
  "commentData content inline pending =
     \<lparr>content_raw = content,
      data_pending = pending,
      data_inline =
        (case inline of
           None \<Rightarrow> None
         | Some i \<Rightarrow>
             Some \<lparr>inline_path = inline_path i, inline_from = inline_from i, inline_to = inline_to i\<rparr>)\<rparr>"

definition addPullRequestComment ::
  "'w server \<Rightarrow> string option \<Rightarrow> string option \<Rightarrow> string option \<Rightarrow> string option
     \<Rightarrow> inline_position option \<Rightarrow> bool option \<Rightarrow> 'w session
     \<Rightarrow> (js_error + tool_result) \<times> 'w session" where
  "addPullRequestComment srv workspace repo_slug pull_request_id content inline pending st =
     (case api_request srv
             (Post (comments_url workspace repo_slug pull_request_id)
                (CommentData (commentData content inline pending))) st of
        (Inl e, st') \<Rightarrow>
          (Inl (McpError InternalError (''Failed to add pull request comment: '' @ error_message e)), st')
      | (Inr d, st') \<Rightarrow> (Inr (Stringified d), st'))"

definition addPendingPullRequestComment ::
  "'w server \<Rightarrow> string option \<Rightarrow> string option \<Rightarrow> string option \<Rightarrow> string option
     \<Rightarrow> inline_position option \<Rightarrow> 'w session
     \<Rightarrow> (js_error + tool_result) \<times> 'w session" where
  "addPendingPullRequestComment srv workspace repo_slug pull_request_id content inline st =
     (case addPullRequestComment srv workspace repo_slug pull_request_id content inline (Some True) st of
        (Inl e, st') \<Rightarrow>
          (Inl (McpError InternalError
                  (''Failed to add pending pull request comment: '' @ error_message e)), st')
      | (Inr r, st') \<Rightarrow> (Inr r, st'))"

section \<open>Notions the properties are stated with\<close>

definition supplied :: "string list option \<Rightarrow> bool" where
  \<comment> \<open>\<^verbatim>\<open>repositoryList && repositoryList.length > 0\<close>\<close>
  "supplied repositoryList = (case repositoryList of None \<Rightarrow> False | Some rs \<Rightarrow> 0 < length rs)"






fun request_url :: "request \<Rightarrow> string" where
  "request_url (Get url cfg) = url"
| "request_url (Post url b) = url"
| "request_url (Put url b) = url"

definition listing_requests :: "string \<Rightarrow> request list \<Rightarrow> request list" where
  \<comment> \<open>the requests, among those issued, to the repository listing of the workspace\<close>
  "listing_requests wsName issued = filter (\<lambda>rq. request_url rq = ''/repositories/'' @ wsName) issued"

section \<open>A small Bitbucket to run the methods on\<close>

definition example_config :: bitbucket_config where
  "example_config =
     \<lparr>baseUrl = ''https://api.bitbucket.org/2.0'', token = None, username = Some ''me'',
      password = Some ''secret'', defaultWorkspace = None\<rparr>"

definition decimal :: "string \<Rightarrow> nat option" where
  "decimal s =
     (if s \<noteq> [] \<and> list_all (\<lambda>c. CHR ''0'' \<le> c \<and> c \<le> CHR ''9'') s
      then Some (foldl (\<lambda>n c. 10 * n + (of_char c - 48)) 0 s) else None)"

definition days_from_civil :: "int \<Rightarrow> int \<Rightarrow> int \<Rightarrow> int" where
  \<comment> \<open>the days from 1970-01-01 to the day \<open>d\<close> of the month \<open>m\<close> of the year \<open>y\<close>\<close>
  "days_from_civil y m d =
     (let y' = (if m \<le> 2 then y - 1 else y);
          era = y' div 400;
          yoe = y' - era * 400;
          doy = (153 * (if 2 < m then m - 3 else m + 9) + 2) div 5 + d - 1;
          doe = yoe * 365 + yoe div 4 - yoe div 100 + doy
      in era * 146097 + doe - 719468)"

definition iso_time :: "string \<Rightarrow> int option" where
  \<comment> \<open>the clock of the examples. It reads a text of the form Bitbucket writes,
      \<^verbatim>\<open>YYYY-MM-DDTHH:MM:SS.ffffff+00:00\<close>, as \<^verbatim>\<open>new Date\<close> does: the digits of the fraction
      below the millisecond are dropped. It reads no other text.\<close>
  "iso_time s =
     (case decimal (take 4 s) of None \<Rightarrow> None | Some y \<Rightarrow>
      case decimal (take 2 (drop 5 s)) of None \<Rightarrow> None | Some mo \<Rightarrow>
      case decimal (take 2 (drop 8 s)) of None \<Rightarrow> None | Some d \<Rightarrow>
      case decimal (take 2 (drop 11 s)) of None \<Rightarrow> None | Some h \<Rightarrow>
      case decimal (take 2 (drop 14 s)) of None \<Rightarrow> None | Some mi \<Rightarrow>
      case decimal (take 2 (drop 17 s)) of None \<Rightarrow> None | Some se \<Rightarrow>
      case decimal (take 6 (drop 20 s)) of None \<Rightarrow> None | Some us \<Rightarrow>
        if length s = 32 \<and> [s ! 4, s ! 7, s ! 10, s ! 13, s ! 16, s ! 19] = ''--T::.'' \<and>
           drop 26 s = ''+00:00'' \<and> 1 \<le> mo \<and> mo \<le> 12 \<and> 1 \<le> d \<and> d \<le> 31 \<and>
           h < 24 \<and> mi < 60 \<and> se < 60
        then Some ((((days_from_civil (int y) (int mo) (int d) * 24 + int h) * 60 + int mi) * 60
                      + int se) * 1000 + int (us div 1000))
        else None)"

definition example_pr :: "nat \<Rightarrow> string \<Rightarrow> string \<Rightarrow> bool \<Rightarrow> pull_request" where
  "example_pr n t reviewer has_approved =
     \<lparr>pr_id = n, pr_title = ''change'', pr_state = ''OPEN'',
      created_on = ''2024-02-01T09:00:00.000000+00:00'', updated_on = t,
      participants =
        Some [\<lparr>user_nickname = Some ''author'', role = ''PARTICIPANT'', approved = Some False\<rparr>,
              \<lparr>user_nickname = Some reviewer, role = ''REVIEWER'', approved = Some has_approved\<rparr>],
      repository = None\<rparr>"

definition not_found :: js_error where
  "not_found = AxiosError ''Request failed with status code 404'' None"

definition example_server :: "comment list server" where
  \<comment> \<open>workspace \<^verbatim>\<open>ws\<close> with the repositories \<^verbatim>\<open>alpha\<close>, \<^verbatim>\<open>beta\<close> and \<^verbatim>\<open>gamma\<close>; the pull requests
      of \<^verbatim>\<open>beta\<close> cannot be fetched; the two of \<^verbatim>\<open>gamma\<close> were updated within one millisecond;
      the state is the list of comments of pull request 7 of \<^verbatim>\<open>alpha\<close>\<close>
  "example_server rq w =
     (case rq of
        Get url cfg \<Rightarrow>
          (if url = ''/repositories/ws'' then
             (Inr (RepositoryPage (Some
                [\<lparr>repo_name = ''alpha''\<rparr>, \<lparr>repo_name = ''beta''\<rparr>, \<lparr>repo_name = ''gamma''\<rparr>])), w)
           else if url = ''/repositories/ws/alpha/pullrequests'' then
             (Inr (PullRequestPage (Some
                [example_pr 1 ''2024-03-01T10:00:00.000000+00:00'' ''me'' False,
                 example_pr 2 ''2024-03-03T10:00:00.000000+00:00'' ''me'' False,
                 example_pr 3 ''2024-03-05T10:00:00.000000+00:00'' ''me'' True,
                 example_pr 4 ''2024-03-02T10:00:00.000000+00:00'' ''me'' False,
                 example_pr 5 ''2024-03-06T10:00:00.000000+00:00'' ''you'' False])), w)
           else if url = ''/repositories/ws/gamma/pullrequests'' then
             (Inr (PullRequestPage (Some
                [example_pr 8 ''2024-03-04T10:00:00.123456+00:00'' ''me'' False,
                 example_pr 9 ''2024-03-04T10:00:00.123789+00:00'' ''me'' False])), w)
           else if url = ''/repositories/ws/alpha/pullrequests/7'' then
             (Inr (PullRequestResource
                \<lparr>source_commit = Commit (Some ''abc123''),
                 destination_commit = Commit (Some ''def456'')\<rparr>), w)
           else if url = ''/repositories/ws/alpha/diff/ws/alpha:abc123%0Ddef456?from_pullrequest_id=7&topic=true''
           then (Inr (TextBody ''diff --git a/f b/f''), w)
           else if url = ''/repositories/ws/alpha/pullrequests/7/comments'' then
             (Inr (CommentPage (Some w)), w)
           else (Inl not_found, w))
      | Post url b \<Rightarrow>
          (if url = ''/repositories/ws/alpha/pullrequests'' then (Inr (OtherJson ''created''), w)
           else if url = ''/repositories/ws/alpha/pullrequests/7/comments'' then
             (case b of
                CommentData d \<Rightarrow>
                  (Inr (CommentResource
                     \<lparr>comment_id = Suc (length w), comment_content = interpolate (content_raw d),
                      comment_pending = data_pending d, comment_inline = data_inline d\<rparr>),
                   w @ [\<lparr>comment_id = Suc (length w), comment_content = interpolate (content_raw d),
                         comment_pending = data_pending d, comment_inline = data_inline d\<rparr>])
              | _ \<Rightarrow> (Inl not_found, w))
           else (Inl not_found, w))
      | Put url b \<Rightarrow>
          (Inr (OtherJson ''updated''),
           map (\<lambda>c. if url = ''/repositories/ws/alpha/pullrequests/7/comments/'' @ string_of_nat (comment_id c)
                    then c\<lparr>comment_pending := Some False\<rparr> else c) w))"

definition published_comment :: comment where
  "published_comment =
     \<lparr>comment_id = 11, comment_content = ''looks good'', comment_pending = Some False,
      comment_inline = None\<rparr>"

section \<open>Slicing and sorting\<close>

lemma length_slice0: "0 \<le> n \<Longrightarrow> int (length (slice0 xs n)) \<le> n"
  by (simp add: slice0_def)

lemma set_slice0: "set (slice0 xs n) \<subseteq> set xs"
  by (auto simp: slice0_def dest: in_set_takeD)

lemma length_insert_by: "length (insert_by cmp x xs) = Suc (length xs)"
  by (induction xs) simp_all

lemma set_insert_by: "set (insert_by cmp x xs) = insert x (set xs)"
  by (induction xs) auto

lemma length_js_sort: "length (js_sort cmp xs) = length xs"
  unfolding js_sort_def by (induction xs) (simp_all add: length_insert_by)

lemma set_js_sort: "set (js_sort cmp xs) = set xs"
  unfolding js_sort_def by (induction xs) (simp_all add: set_insert_by)

lemma sorted_insert_by:
  assumes "\<forall>y \<in> set (x # xs). getTime (updated_on y) \<noteq> None"
    and "sorted_wrt (\<lambda>a b. the (getTime (updated_on b)) \<le> the (getTime (updated_on a))) xs"
  shows "sorted_wrt (\<lambda>a b. the (getTime (updated_on b)) \<le> the (getTime (updated_on a)))
           (insert_by (by_updated_desc getTime) x xs)"
  using assms
proof (induction xs)
  case Nil
  show ?case by simp
next
  case (Cons y ys)
  from Cons.prems(1) obtain tx ty where
    t: "getTime (updated_on x) = Some tx" "getTime (updated_on y) = Some ty" by auto
  show ?case
  proof (cases "nan_as_zero (by_updated_desc getTime x y) \<le> 0")
    case True
    with t have "ty \<le> tx" by (simp add: by_updated_desc_def nan_as_zero_def)
    with True t Cons.prems(2) show ?thesis by fastforce
  next
    case False
    with t have "tx \<le> ty" by (simp add: by_updated_desc_def nan_as_zero_def)
    moreover from Cons.prems have
      "sorted_wrt (\<lambda>a b. the (getTime (updated_on b)) \<le> the (getTime (updated_on a)))
         (insert_by (by_updated_desc getTime) x ys)"
      by (intro Cons.IH) simp_all
    ultimately show ?thesis using False t Cons.prems(2) by (auto simp: set_insert_by)
  qed
qed

lemma sorted_js_sort:
  assumes "\<forall>y \<in> set xs. getTime (updated_on y) \<noteq> None"
  shows "sorted_wrt (\<lambda>a b. the (getTime (updated_on b)) \<le> the (getTime (updated_on a)))
           (js_sort (by_updated_desc getTime) xs)"
  using assms
proof (induction xs)
  case Nil
  show ?case by (simp add: js_sort_def)
next
  case (Cons x xs)
  then have "sorted_wrt (\<lambda>a b. the (getTime (updated_on b)) \<le> the (getTime (updated_on a)))
               (js_sort (by_updated_desc getTime) xs)"
    by simp
  moreover from Cons.prems have
    "\<forall>y \<in> set (x # js_sort (by_updated_desc getTime) xs). getTime (updated_on y) \<noteq> None"
    by (simp add: set_js_sort)
  ultimately have
    "sorted_wrt (\<lambda>a b. the (getTime (updated_on b)) \<le> the (getTime (updated_on a)))
       (insert_by (by_updated_desc getTime) x (js_sort (by_updated_desc getTime) xs))"
    by (intro sorted_insert_by)
  then show ?case by (simp add: js_sort_def)
qed


section \<open>Running the examples\<close>

lemma iso_time_examples:
  "iso_time ''2024-03-01T10:00:00.000000+00:00'' = Some 1709287200000"
  "iso_time ''2024-03-02T10:00:00.000000+00:00'' = Some 1709373600000"
  "iso_time ''2024-03-03T10:00:00.000000+00:00'' = Some 1709460000000"
  "iso_time ''2024-03-04T10:00:00.123456+00:00'' = Some 1709546400123"
  "iso_time ''2024-03-04T10:00:00.123789+00:00'' = Some 1709546400123"
  by (simp_all add: iso_time_def decimal_def days_from_civil_def Let_def)

lemmas run_defs =
  getPendingReviewPRs_def returned_prs_def resolve_repositories_def process_batches.simps
  check_repository_def api_request_def example_server_def example_config_def example_pr_def
  repositories_request_def pull_requests_request_def no_config_def or_else_def truthy_def
  limit_or_default_def batchSize_def awaits_review_def is_pending_reviewer_def slice0_def
  js_sort_def by_updated_desc_def nan_as_zero_def not_found_def pending_review_failed_def
  workspace_missing_def username_missing_def Let_def iso_time_examples

section \<open>The shape of what getPendingReviewPRs returns\<close>

lemma getPendingReviewPRs_returns:
  assumes "fst (getPendingReviewPRs getTime config srv workspace limit_arg repositoryList st) = Inr r"
  obtains wsName currentUserNickname repositoriesToCheck st1 pendingPRs st2 where
    "or_else workspace (defaultWorkspace config) = Some wsName" "wsName \<noteq> []"
    "username config = Some currentUserNickname" "currentUserNickname \<noteq> []"
    "resolve_repositories srv wsName repositoryList st = (Inr repositoriesToCheck, st1)"
    "process_batches srv wsName currentUserNickname (limit_or_default limit_arg)
       repositoriesToCheck 0 [] st1 = (pendingPRs, st2)"
    "returned_prs (getPendingReviewPRs getTime config srv workspace limit_arg repositoryList st) =
       js_sort (by_updated_desc getTime) (slice0 pendingPRs (limit_or_default limit_arg))"
  using assms unfolding getPendingReviewPRs_def Let_def returned_prs_def
  by (auto split: option.splits if_splits prod.splits sum.splits)

lemma returned_prs_thrown:
  "fst outcome = Inl e \<Longrightarrow> returned_prs outcome = []"
  by (simp add: returned_prs_def)

text \<open>
  Claim C1, amended. For every limit \<open>N \<ge> 0\<close> (50 when no limit is given), every
  server and every scope, the \<^verbatim>\<open>pending_review_prs\<close> list \<^verbatim>\<open>getPendingReviewPRs\<close> returns
  has at most \<open>N\<close> entries.
\<close>

theorem pending_review_at_most_limit:
  assumes "0 \<le> limit_or_default limit_arg"
  shows "int (length (returned_prs
           (getPendingReviewPRs getTime config srv workspace limit_arg repositoryList st)))
         \<le> limit_or_default limit_arg"
proof (cases "fst (getPendingReviewPRs getTime config srv workspace limit_arg repositoryList st)")
  case (Inl e)
  with assms show ?thesis by (simp add: returned_prs_thrown)
next
  case (Inr r)
  then obtain pendingPRs where
    "returned_prs (getPendingReviewPRs getTime config srv workspace limit_arg repositoryList st) =
       js_sort (by_updated_desc getTime) (slice0 pendingPRs (limit_or_default limit_arg))"
    by (rule getPendingReviewPRs_returns)
  with assms show ?thesis by (simp add: length_js_sort length_slice0)
qed

theorem pending_review_at_most_limit_witness:
  "0 \<le> limit_or_default (Some 2) \<and>
   int (length (returned_prs
     (getPendingReviewPRs iso_time example_config example_server (Some ''ws'') (Some 2) None ([], []))))
     \<le> limit_or_default (Some 2) \<and>
   map pr_id (returned_prs
     (getPendingReviewPRs iso_time example_config example_server (Some ''ws'') (Some 2) None ([], []))) = [2, 1]"
proof -
  have h: "0 \<le> limit_or_default (Some 2)"
    by (simp add: limit_or_default_def)
  have e: "map pr_id (returned_prs
     (getPendingReviewPRs iso_time example_config example_server (Some ''ws'') (Some 2) None ([], []))) = [2, 1]"
    by (simp add: run_defs)
  from h pending_review_at_most_limit [OF h] e show ?thesis by blast
qed

text \<open>
  With the limit \<open>-1\<close> the method returns two entries: \<^verbatim>\<open>slice(0, -1)\<close> drops the last of the
  three pull requests found in \<^verbatim>\<open>alpha\<close>.
\<close>

theorem pending_review_negative_limit_counterexample:
  "\<not> int (length (returned_prs
       (getPendingReviewPRs iso_time example_config example_server (Some ''ws'') (Some (- 1))
          (Some [''alpha'']) ([], []))))
     \<le> limit_or_default (Some (- 1))"
  by (simp add: run_defs)

section \<open>What the scan of the repositories collects\<close>

lemma awaits_review_iff:
  "awaits_review u pr \<longleftrightarrow>
     (\<exists>ps p. participants pr = Some ps \<and> p \<in> set ps \<and> is_pending_reviewer u p)"
  by (auto simp: awaits_review_def find_None_iff split: option.splits)

lemma check_repository_awaits:
  "e \<in> set (fst (check_repository srv wsName u limit repoSlug st)) \<Longrightarrow> awaits_review u e"
  by (auto simp: check_repository_def awaits_review_def split: prod.splits sum.splits option.splits)

lemma check_batch_awaits:
  "xs \<in> set (fst (check_batch srv wsName u limit batch st)) \<Longrightarrow> e \<in> set xs \<Longrightarrow> awaits_review u e"
proof (induction batch arbitrary: st)
  case Nil
  then show ?case by simp
next
  case (Cons repoSlug rest)
  obtain repoPRs st' where c: "check_repository srv wsName u limit repoSlug st = (repoPRs, st')"
    by (cases "check_repository srv wsName u limit repoSlug st")
  obtain others st'' where b: "check_batch srv wsName u limit rest st' = (others, st'')"
    by (cases "check_batch srv wsName u limit rest st'")
  from Cons.prems c b have "xs = repoPRs \<or> xs \<in> set others" by simp
  then show ?case
  proof
    assume "xs = repoPRs"
    with c Cons.prems(2) check_repository_awaits [of e srv wsName u limit repoSlug st]
    show ?thesis by simp
  next
    assume "xs \<in> set others"
    with b Cons.IH [of st'] Cons.prems(2) show ?thesis by simp
  qed
qed

lemma push_results_subset:
  "set (push_results limit acc rs) \<subseteq> set acc \<union> \<Union> (set ` set rs)"
proof (induction rs arbitrary: acc)
  case Nil
  show ?case by simp
next
  case (Cons r rs)
  from Cons.IH [of "acc @ r"] show ?case by (auto split: if_splits)
qed

lemma process_batches_awaits:
  "\<forall>e \<in> set acc. awaits_review u e \<Longrightarrow>
   e \<in> set (fst (process_batches srv wsName u limit repos i acc st)) \<Longrightarrow> awaits_review u e"
proof (induction srv wsName u limit repos i acc st rule: process_batches.induct)
  case (1 srv wsName u limit repos i acc st)
  show ?case
  proof (cases "i < length repos")
    case False
    with "1.prems" show ?thesis by (simp add: process_batches.simps)
  next
    case True
    obtain batchResults st' where b:
      "check_batch srv wsName u limit (take batchSize (drop i repos)) st = (batchResults, st')"
      by (cases "check_batch srv wsName u limit (take batchSize (drop i repos)) st")
    have acc': "\<forall>e \<in> set (push_results limit acc batchResults). awaits_review u e"
    proof
      fix x assume "x \<in> set (push_results limit acc batchResults)"
      with push_results_subset [of limit acc batchResults]
      have "x \<in> set acc \<or> (\<exists>xs \<in> set batchResults. x \<in> set xs)" by auto
      then show "awaits_review u x"
        using "1.prems"(1) check_batch_awaits [of _ srv wsName u limit "take batchSize (drop i repos)" st x] b
        by auto
    qed
    show ?thesis
    proof (cases "limit \<le> int (length (push_results limit acc batchResults))")
      case True
      with \<open>i < length repos\<close> b "1.prems"(2) acc' show ?thesis
        by (simp add: process_batches.simps)
    next
      case False
      from \<open>i < length repos\<close> b False "1.prems"(2)
      have "e \<in> set (fst (process_batches srv wsName u limit repos (i + batchSize)
                  (push_results limit acc batchResults) st'))"
        by (simp add: process_batches.simps)
      with "1.IH" [OF True b [symmetric] False acc'] show ?thesis .
    qed
  qed
qed

text \<open>
  Claim C2. Every entry of the list \<^verbatim>\<open>getPendingReviewPRs\<close> returns has a participants list, and
  in it a participant whose nickname is the configured username, whose role is
  \<^verbatim>\<open>REVIEWER\<close> and whose \<^verbatim>\<open>approved\<close> flag is false. A pull request without a participants
  array, or without such a participant, is therefore no entry of the list.
\<close>

theorem pending_review_entries_await_the_user:
  assumes "e \<in> set (returned_prs
             (getPendingReviewPRs getTime config srv workspace limit_arg repositoryList st))"
  shows "\<exists>u ps p. username config = Some u \<and> participants e = Some ps \<and> p \<in> set ps \<and>
           user_nickname p = Some u \<and> role p = ''REVIEWER'' \<and> approved p = Some False"
proof (cases "fst (getPendingReviewPRs getTime config srv workspace limit_arg repositoryList st)")
  case (Inl err)
  with assms show ?thesis by (simp add: returned_prs_thrown)
next
  case (Inr r)
  then obtain wsName u repos st1 pendingPRs st2 where
    u: "username config = Some u" and
    scan: "process_batches srv wsName u (limit_or_default limit_arg) repos 0 [] st1 = (pendingPRs, st2)" and
    ret: "returned_prs (getPendingReviewPRs getTime config srv workspace limit_arg repositoryList st) =
       js_sort (by_updated_desc getTime) (slice0 pendingPRs (limit_or_default limit_arg))"
    by (rule getPendingReviewPRs_returns)
  from assms ret set_slice0 [of pendingPRs "limit_or_default limit_arg"]
  have "e \<in> set pendingPRs" by (auto simp: set_js_sort)
  with scan process_batches_awaits [of "[]" u e srv wsName "limit_or_default limit_arg" repos 0 st1]
  have "awaits_review u e" by simp
  with u show ?thesis by (auto simp: awaits_review_iff is_pending_reviewer_def)
qed

theorem pending_review_entries_await_the_user_witness:
  "example_pr 2 ''2024-03-03T10:00:00.000000+00:00'' ''me'' False
       \<lparr>repository := Some \<lparr>ref_name = ''alpha'', full_name = ''ws/alpha''\<rparr>\<rparr>
     \<in> set (returned_prs
         (getPendingReviewPRs iso_time example_config example_server (Some ''ws'') None None ([], [])))
   \<and> (\<exists>u ps p. username example_config = Some u \<and>
         participants (example_pr 2 ''2024-03-03T10:00:00.000000+00:00'' ''me'' False
           \<lparr>repository := Some \<lparr>ref_name = ''alpha'', full_name = ''ws/alpha''\<rparr>\<rparr>) = Some ps \<and>
         p \<in> set ps \<and> user_nickname p = Some u \<and> role p = ''REVIEWER'' \<and> approved p = Some False)
   \<and> map pr_id (returned_prs
         (getPendingReviewPRs iso_time example_config example_server (Some ''ws'') None None ([], [])))
       = [8, 9, 2, 4, 1]"
proof -
  have h: "example_pr 2 ''2024-03-03T10:00:00.000000+00:00'' ''me'' False
       \<lparr>repository := Some \<lparr>ref_name = ''alpha'', full_name = ''ws/alpha''\<rparr>\<rparr>
     \<in> set (returned_prs
         (getPendingReviewPRs iso_time example_config example_server (Some ''ws'') None None ([], [])))"
    by (simp add: run_defs)
  have l: "map pr_id (returned_prs
         (getPendingReviewPRs iso_time example_config example_server (Some ''ws'') None None ([], [])))
       = [8, 9, 2, 4, 1]"
    by (simp add: run_defs)
  from h pending_review_entries_await_the_user [OF h] l show ?thesis by blast
qed

text \<open>
  Claim C4, amended. When the \<^verbatim>\<open>updated_on\<close> text of every returned entry is read as a date,
  the list \<^verbatim>\<open>getPendingReviewPRs\<close> returns is in descending order of the instants, in
  milliseconds, that \<^verbatim>\<open>new Date(updated_on).getTime()\<close> reads: of two adjacent entries the
  first has an instant no earlier than the second. The list is cut to the limit first and
  sorted afterwards.
\<close>

theorem pending_review_sorted_by_instant:
  assumes "Suc i < length (returned_prs
             (getPendingReviewPRs getTime config srv workspace limit_arg repositoryList st))"
    and "\<forall>e \<in> set (returned_prs
             (getPendingReviewPRs getTime config srv workspace limit_arg repositoryList st)).
           getTime (updated_on e) \<noteq> None"
  shows "\<exists>ta tb.
           getTime (updated_on (returned_prs
             (getPendingReviewPRs getTime config srv workspace limit_arg repositoryList st) ! i))
             = Some ta \<and>
           getTime (updated_on (returned_prs
             (getPendingReviewPRs getTime config srv workspace limit_arg repositoryList st) ! Suc i))
             = Some tb \<and>
           tb \<le> ta"
proof (cases "fst (getPendingReviewPRs getTime config srv workspace limit_arg repositoryList st)")
  case (Inl err)
  with assms(1) show ?thesis by (simp add: returned_prs_thrown)
next
  case (Inr r)
  then obtain pendingPRs where
    ret: "returned_prs (getPendingReviewPRs getTime config srv workspace limit_arg repositoryList st) =
       js_sort (by_updated_desc getTime) (slice0 pendingPRs (limit_or_default limit_arg))"
    by (rule getPendingReviewPRs_returns)
  let ?xs = "slice0 pendingPRs (limit_or_default limit_arg)"
  from assms(2) ret have parsed: "\<forall>y \<in> set ?xs. getTime (updated_on y) \<noteq> None"
    by (simp add: set_js_sort)
  from assms(1) ret have len: "Suc i < length (js_sort (by_updated_desc getTime) ?xs)" by simp
  have "i < Suc i" by simp
  from sorted_wrt_nth_less [OF sorted_js_sort [OF parsed] this len]
  have le: "the (getTime (updated_on (js_sort (by_updated_desc getTime) ?xs ! Suc i)))
          \<le> the (getTime (updated_on (js_sort (by_updated_desc getTime) ?xs ! i)))" .
  from len have "js_sort (by_updated_desc getTime) ?xs ! i \<in> set (js_sort (by_updated_desc getTime) ?xs)"
    and "js_sort (by_updated_desc getTime) ?xs ! Suc i \<in> set (js_sort (by_updated_desc getTime) ?xs)"
    by simp_all
  with parsed have
    "getTime (updated_on (js_sort (by_updated_desc getTime) ?xs ! i)) \<noteq> None"
    "getTime (updated_on (js_sort (by_updated_desc getTime) ?xs ! Suc i)) \<noteq> None"
    by (simp_all add: set_js_sort)
  then obtain ta tb where
    "getTime (updated_on (js_sort (by_updated_desc getTime) ?xs ! i)) = Some ta"
    "getTime (updated_on (js_sort (by_updated_desc getTime) ?xs ! Suc i)) = Some tb"
    by blast
  with le ret show ?thesis by simp
qed

theorem pending_review_sorted_by_instant_witness:
  "Suc 0 < length (returned_prs
      (getPendingReviewPRs iso_time example_config example_server (Some ''ws'') (Some 2) None ([], [])))
   \<and> map (\<lambda>e. iso_time (updated_on e)) (returned_prs
        (getPendingReviewPRs iso_time example_config example_server (Some ''ws'') (Some 2) None ([], [])))
      = [Some 1709460000000, Some 1709287200000]
   \<and> (\<exists>ta tb.
        iso_time (updated_on (returned_prs
          (getPendingReviewPRs iso_time example_config example_server (Some ''ws'') (Some 2) None ([], []))
             ! 0)) = Some ta \<and>
        iso_time (updated_on (returned_prs
          (getPendingReviewPRs iso_time example_config example_server (Some ''ws'') (Some 2) None ([], []))
             ! Suc 0)) = Some tb \<and>
        tb \<le> ta)
   \<and> map pr_id (returned_prs
        (getPendingReviewPRs iso_time example_config example_server (Some ''ws'') (Some 2) None ([], [])))
      = [2, 1]"
proof -
  have r: "returned_prs
      (getPendingReviewPRs iso_time example_config example_server (Some ''ws'') (Some 2) None ([], [])) =
      [example_pr 2 ''2024-03-03T10:00:00.000000+00:00'' ''me'' False
         \<lparr>repository := Some \<lparr>ref_name = ''alpha'', full_name = ''ws/alpha''\<rparr>\<rparr>,
       example_pr 1 ''2024-03-01T10:00:00.000000+00:00'' ''me'' False
         \<lparr>repository := Some \<lparr>ref_name = ''alpha'', full_name = ''ws/alpha''\<rparr>\<rparr>]"
    by (simp add: run_defs)
  have h: "Suc 0 < length (returned_prs
      (getPendingReviewPRs iso_time example_config example_server (Some ''ws'') (Some 2) None ([], [])))"
    by (simp add: r)
  have p: "\<forall>e \<in> set (returned_prs
      (getPendingReviewPRs iso_time example_config example_server (Some ''ws'') (Some 2) None ([], []))).
      iso_time (updated_on e) \<noteq> None"
    by (simp add: r example_pr_def iso_time_examples)
  have m: "map (\<lambda>e. iso_time (updated_on e)) (returned_prs
        (getPendingReviewPRs iso_time example_config example_server (Some ''ws'') (Some 2) None ([], [])))
      = [Some 1709460000000, Some 1709287200000]"
    by (simp add: r example_pr_def iso_time_examples)
  have l: "map pr_id (returned_prs
        (getPendingReviewPRs iso_time example_config example_server (Some ''ws'') (Some 2) None ([], [])))
      = [2, 1]"
    by (simp add: r example_pr_def)
  from h m l pending_review_sorted_by_instant [OF h p] show ?thesis by blast
qed

text \<open>
  The two pull requests of \<^verbatim>\<open>gamma\<close> were updated within one millisecond, pull request 8
  before pull request 9. Both texts are read as the instant 1709546400123, the comparator
  gives 0, and the sort leaves the two in the order they were found in: the entry updated
  earlier comes first.
\<close>

theorem pending_review_same_millisecond_counterexample:
  "map updated_on (returned_prs
     (getPendingReviewPRs iso_time example_config example_server (Some ''ws'') None
        (Some [''gamma'']) ([], []))) =
     [''2024-03-04T10:00:00.123456+00:00'', ''2024-03-04T10:00:00.123789+00:00''] \<and>
   \<not> updated_on (returned_prs
         (getPendingReviewPRs iso_time example_config example_server (Some ''ws'') None
            (Some [''gamma'']) ([], [])) ! Suc 0)
       \<le> updated_on (returned_prs
         (getPendingReviewPRs iso_time example_config example_server (Some ''ws'') None
            (Some [''gamma'']) ([], [])) ! 0)"
proof -
  have r: "returned_prs
     (getPendingReviewPRs iso_time example_config example_server (Some ''ws'') None
        (Some [''gamma'']) ([], [])) =
     [example_pr 8 ''2024-03-04T10:00:00.123456+00:00'' ''me'' False
        \<lparr>repository := Some \<lparr>ref_name = ''gamma'', full_name = ''ws/gamma''\<rparr>\<rparr>,
      example_pr 9 ''2024-03-04T10:00:00.123789+00:00'' ''me'' False
        \<lparr>repository := Some \<lparr>ref_name = ''gamma'', full_name = ''ws/gamma''\<rparr>\<rparr>]"
    by (simp add: run_defs)
  have "\<not> ''2024-03-04T10:00:00.123789+00:00'' \<le> ''2024-03-04T10:00:00.123456+00:00''"
    by code_simp
  then show ?thesis by (simp add: r example_pr_def)
qed

section \<open>The requests of the scan\<close>

lemma trace_api_request: "fst (snd (api_request srv rq st)) = fst st @ [rq]"
  by (simp add: api_request_def split: prod.splits)

lemma trace_check_repository:
  "fst (snd (check_repository srv wsName u limit repoSlug st)) =
     fst st @ [pull_requests_request wsName repoSlug limit]"
  using trace_api_request [of srv "pull_requests_request wsName repoSlug limit" st]
  by (auto simp: check_repository_def split: prod.splits sum.splits option.splits)

lemma pull_requests_request_url:
  "request_url (pull_requests_request wsName repoSlug limit) \<noteq> ''/repositories/'' @ wsName"
  by (simp add: pull_requests_request_def)

lemma listing_requests_check_repository:
  "listing_requests wsName (fst (snd (check_repository srv wsName u limit repoSlug st))) =
   listing_requests wsName (fst st)"
  using pull_requests_request_url [of wsName repoSlug limit]
  by (simp add: trace_check_repository listing_requests_def)

lemma listing_requests_check_batch:
  "listing_requests wsName (fst (snd (check_batch srv wsName u limit batch st))) =
   listing_requests wsName (fst st)"
proof (induction batch arbitrary: st)
  case Nil
  show ?case by simp
next
  case (Cons repoSlug rest)
  obtain repoPRs st' where c: "check_repository srv wsName u limit repoSlug st = (repoPRs, st')"
    by (cases "check_repository srv wsName u limit repoSlug st")
  obtain others st'' where b: "check_batch srv wsName u limit rest st' = (others, st'')"
    by (cases "check_batch srv wsName u limit rest st'")
  from listing_requests_check_repository [of wsName srv u limit repoSlug st] c
  have "listing_requests wsName (fst st') = listing_requests wsName (fst st)"
    by simp
  moreover from Cons.IH [of st'] b
  have "listing_requests wsName (fst st'') = listing_requests wsName (fst st')"
    by simp
  ultimately show ?case using c b by simp
qed

lemma listing_requests_process_batches:
  "listing_requests wsName (fst (snd (process_batches srv wsName u limit repos i acc st))) =
   listing_requests wsName (fst st)"
proof (induction srv wsName u limit repos i acc st rule: process_batches.induct)
  case (1 srv wsName u limit repos i acc st)
  show ?case
  proof (cases "i < length repos")
    case False
    then show ?thesis by (simp add: process_batches.simps)
  next
    case True
    obtain batchResults st' where b:
      "check_batch srv wsName u limit (take batchSize (drop i repos)) st = (batchResults, st')"
      by (cases "check_batch srv wsName u limit (take batchSize (drop i repos)) st")
    from listing_requests_check_batch [of wsName srv u limit "take batchSize (drop i repos)" st] b
    have st': "listing_requests wsName (fst st') = listing_requests wsName (fst st)"
      by simp
    show ?thesis
    proof (cases "limit \<le> int (length (push_results limit acc batchResults))")
      case True
      with \<open>i < length repos\<close> b st' show ?thesis by (simp add: process_batches.simps)
    next
      case False
      with \<open>i < length repos\<close> b st' "1.IH" [OF True b [symmetric] False] show ?thesis
        by (simp add: process_batches.simps)
    qed
  qed
qed

lemma supplied_iff: "supplied rl \<longleftrightarrow> (\<exists>r rs. rl = Some (r # rs))"
  by (cases rl) (auto simp: supplied_def neq_Nil_conv)

lemma resolve_supplied:
  "supplied rl \<Longrightarrow> \<exists>repos. resolve_repositories srv wsName rl st = (Inr repos, st)"
  by (auto simp: supplied_iff resolve_repositories_def)

lemma resolve_not_supplied:
  "\<not> supplied rl \<Longrightarrow> resolve_repositories srv wsName rl st =
     (case api_request srv (repositories_request wsName) st of
        (Inl e, st') \<Rightarrow> (Inl e, st')
      | (Inr reposResponse, st') \<Rightarrow>
          (case repository_values reposResponse of
             None \<Rightarrow> (Inl (McpError InternalError ''Failed to fetch repositories''), st')
           | Some repos \<Rightarrow> (Inr (map repo_name repos), st')))"
  by (cases rl; simp add: supplied_iff resolve_repositories_def split: list.splits)

lemma trace_resolve_supplied:
  "supplied rl \<Longrightarrow> fst (snd (resolve_repositories srv wsName rl st)) = fst st"
  using resolve_supplied [of rl srv wsName st] by auto

lemma trace_resolve_not_supplied:
  "\<not> supplied rl \<Longrightarrow>
   fst (snd (resolve_repositories srv wsName rl st)) = fst st @ [repositories_request wsName]"
  using trace_api_request [of srv "repositories_request wsName" st]
  by (auto simp: resolve_not_supplied split: prod.splits sum.splits option.splits)

lemma getPendingReviewPRs_listing_requests:
  assumes "or_else workspace (defaultWorkspace config) = Some wsName" "wsName \<noteq> []"
    "username config = Some u" "u \<noteq> []"
  shows "listing_requests wsName
           (fst (snd (getPendingReviewPRs getTime config srv workspace limit_arg repositoryList st))) =
         listing_requests wsName (fst (snd (resolve_repositories srv wsName repositoryList st)))"
proof -
  obtain scope st1 where Pair: "resolve_repositories srv wsName repositoryList st = (scope, st1)"
    by (cases "resolve_repositories srv wsName repositoryList st")
  show ?thesis
  proof (cases scope)
    case (Inl e)
    with Pair assms show ?thesis by (simp add: getPendingReviewPRs_def Let_def)
  next
    case (Inr repos)
    obtain pendingPRs st2 where
      scan: "process_batches srv wsName u (limit_or_default limit_arg) repos 0 [] st1 = (pendingPRs, st2)"
      by (cases "process_batches srv wsName u (limit_or_default limit_arg) repos 0 [] st1")
    from listing_requests_process_batches [of wsName srv u "limit_or_default limit_arg" repos 0 "[]" st1] scan
    have "listing_requests wsName (fst st2) = listing_requests wsName (fst st1)" by simp
    with Pair Inr scan assms show ?thesis by (simp add: getPendingReviewPRs_def Let_def)
  qed
qed

lemma getPendingReviewPRs_rejected:
  assumes "\<not> truthy (or_else workspace (defaultWorkspace config)) \<or> \<not> truthy (username config)"
  shows "snd (getPendingReviewPRs getTime config srv workspace limit_arg repositoryList st) = st"
  using assms unfolding getPendingReviewPRs_def truthy_def Let_def
  by (auto split: option.splits)

section \<open>Failures while scanning\<close>








section \<open>What the scan collects\<close>













text \<open>
  Claim C6, amended. When \<^verbatim>\<open>repositoryList\<close> is supplied and non-empty, \<^verbatim>\<open>getPendingReviewPRs\<close>
  issues no request to the repository listing of the workspace. When it is absent or empty,
  and a workspace and a username are configured, it issues exactly one, with \<^verbatim>\<open>pagelen\<close> 100.
  When the workspace or the username is missing it issues no request at all.
\<close>

theorem repository_listing_requests:
  "(or_else workspace (defaultWorkspace config) = Some wsName \<and> supplied repositoryList \<longrightarrow>
      listing_requests wsName
        (fst (snd (getPendingReviewPRs getTime config srv workspace limit_arg repositoryList (issued, w)))) =
      listing_requests wsName issued) \<and>
   (or_else workspace (defaultWorkspace config) = Some wsName \<and> wsName \<noteq> [] \<and>
    username config = Some u \<and> u \<noteq> [] \<and> \<not> supplied repositoryList \<longrightarrow>
      listing_requests wsName
        (fst (snd (getPendingReviewPRs getTime config srv workspace limit_arg repositoryList (issued, w)))) =
      listing_requests wsName issued @
        [Get (''/repositories/'' @ wsName)
           \<lparr>params = [(''pagelen'', PNumber 100)], headers = [], responseType = None,
            maxRedirects = None\<rparr>]) \<and>
   (\<not> truthy (or_else workspace (defaultWorkspace config)) \<or> \<not> truthy (username config) \<longrightarrow>
      fst (snd (getPendingReviewPRs getTime config srv workspace limit_arg repositoryList (issued, w))) = issued)"
proof (intro conjI impI)
  assume a: "or_else workspace (defaultWorkspace config) = Some wsName \<and> supplied repositoryList"
  show "listing_requests wsName
        (fst (snd (getPendingReviewPRs getTime config srv workspace limit_arg repositoryList (issued, w)))) =
      listing_requests wsName issued"
  proof (cases "wsName \<noteq> [] \<and> truthy (username config)")
    case True
    then obtain u' where "username config = Some u'" "u' \<noteq> []"
      by (auto simp: truthy_def split: option.splits)
    with a True
      getPendingReviewPRs_listing_requests
        [where workspace = workspace and config = config and wsName = wsName and u = "u'"
           and srv = srv and limit_arg = limit_arg and repositoryList = repositoryList
           and st = "(issued, w)" and getTime = getTime]
      trace_resolve_supplied [of repositoryList srv wsName "(issued, w)"]
    show ?thesis by simp
  next
    case False
    with a have "\<not> truthy (or_else workspace (defaultWorkspace config)) \<or> \<not> truthy (username config)"
      by (auto simp: truthy_def)
    from getPendingReviewPRs_rejected
      [OF this, where srv = srv and limit_arg = limit_arg and repositoryList = repositoryList
         and st = "(issued, w)" and getTime = getTime]
    show ?thesis by simp
  qed
next
  assume a: "or_else workspace (defaultWorkspace config) = Some wsName \<and> wsName \<noteq> [] \<and>
    username config = Some u \<and> u \<noteq> [] \<and> \<not> supplied repositoryList"
  with getPendingReviewPRs_listing_requests
        [where workspace = workspace and config = config and wsName = wsName and u = "u"
           and srv = srv and limit_arg = limit_arg and repositoryList = repositoryList
           and st = "(issued, w)" and getTime = getTime]
    trace_resolve_not_supplied [of repositoryList srv wsName "(issued, w)"]
  show "listing_requests wsName
        (fst (snd (getPendingReviewPRs getTime config srv workspace limit_arg repositoryList (issued, w)))) =
      listing_requests wsName issued @
        [Get (''/repositories/'' @ wsName)
           \<lparr>params = [(''pagelen'', PNumber 100)], headers = [], responseType = None,
            maxRedirects = None\<rparr>]"
    by (simp add: listing_requests_def repositories_request_def no_config_def)
next
  assume "\<not> truthy (or_else workspace (defaultWorkspace config)) \<or> \<not> truthy (username config)"
  from getPendingReviewPRs_rejected
      [OF this, where srv = srv and limit_arg = limit_arg and repositoryList = repositoryList
         and st = "(issued, w)" and getTime = getTime]
  show "fst (snd (getPendingReviewPRs getTime config srv workspace limit_arg repositoryList (issued, w))) = issued"
    by simp
qed

theorem repository_listing_requests_witness:
  "listing_requests ''ws''
     (fst (snd (getPendingReviewPRs iso_time example_config example_server (Some ''ws'') None
        (Some [''beta'', ''alpha'']) ([], [])))) = [] \<and>
   listing_requests ''ws''
     (fst (snd (getPendingReviewPRs iso_time example_config example_server (Some ''ws'') None (Some []) ([], [])))) =
     [Get ''/repositories/ws''
        \<lparr>params = [(''pagelen'', PNumber 100)], headers = [], responseType = None,
         maxRedirects = None\<rparr>] \<and>
   fst (snd (getPendingReviewPRs iso_time example_config example_server (Some []) None None ([], []))) = [] \<and>
   length (fst (snd (getPendingReviewPRs iso_time example_config example_server (Some ''ws'') None (Some []) ([], []))))
     = 4"
proof -
  have ws: "or_else (Some ''ws'') (defaultWorkspace example_config) = Some ''ws''"
    and no_ws: "\<not> truthy (or_else (Some []) (defaultWorkspace example_config))"
    and me: "username example_config = Some ''me''"
    and given: "supplied (Some [''beta'', ''alpha''])"
    and not_given: "\<not> supplied (Some [])"
    by (simp_all add: or_else_def truthy_def example_config_def supplied_def)
  have n: "length (fst (snd (getPendingReviewPRs iso_time example_config example_server (Some ''ws'') None (Some []) ([], []))))
     = 4"
    by (simp add: run_defs)
  from repository_listing_requests
    [where workspace = "Some ''ws''" and config = example_config and wsName = "''ws''"
       and repositoryList = "Some [''beta'', ''alpha'']" and srv = example_server
       and limit_arg = None and issued = "[]" and w = "[]" and getTime = iso_time]
    ws given
  have 1: "listing_requests ''ws''
     (fst (snd (getPendingReviewPRs iso_time example_config example_server (Some ''ws'') None
        (Some [''beta'', ''alpha'']) ([], [])))) = []"
    by (simp add: listing_requests_def)
  from repository_listing_requests
    [where workspace = "Some ''ws''" and config = example_config and wsName = "''ws''"
       and repositoryList = "Some []" and srv = example_server
       and limit_arg = None and issued = "[]" and w = "[]" and getTime = iso_time and u = "''me''"]
    ws me not_given
  have 2: "listing_requests ''ws''
     (fst (snd (getPendingReviewPRs iso_time example_config example_server (Some ''ws'') None (Some []) ([], [])))) =
     [Get ''/repositories/ws''
        \<lparr>params = [(''pagelen'', PNumber 100)], headers = [], responseType = None,
         maxRedirects = None\<rparr>]"
    by (simp add: listing_requests_def)
  from repository_listing_requests
    [where workspace = "Some []" and config = example_config and repositoryList = None
       and srv = example_server and limit_arg = None and issued = "[]" and w = "[]" and getTime = iso_time] no_ws
  have 3: "fst (snd (getPendingReviewPRs iso_time example_config example_server (Some []) None None ([], []))) = []"
    by simp
  from 1 2 3 n show ?thesis by blast
qed

text \<open>
  With no workspace argument and no default workspace the method throws before any request:
  \<^verbatim>\<open>repositoryList\<close> is absent, and no listing request is made.
\<close>

theorem repository_listing_without_workspace_counterexample:
  "\<not> supplied None \<and>
   fst (snd (getPendingReviewPRs iso_time example_config example_server None None None ([], []))) = []"
  by (simp add: run_defs supplied_def)

section \<open>The single-call methods\<close>

text \<open>
  Claim C3, amended. \<^verbatim>\<open>getRepository\<close> checks none of its arguments. Whatever arguments are
  missing, the call handler issues one request, \<^verbatim>\<open>GET /repositories/{workspace}/{repo_slug}\<close>
  with \<^verbatim>\<open>undefined\<close> written for a missing argument; it never fails with \<^verbatim>\<open>InvalidParams\<close>:
  it returns the response, or fails with \<^verbatim>\<open>InternalError\<close> when the request fails.
\<close>

theorem get_repository_validates_nothing:
  "call_getRepository srv None (issued, w) = call_getRepository srv (Some Map.empty) (issued, w) \<and>
   fst (snd (call_getRepository srv (Some args) (issued, w))) =
     issued @ [Get (''/repositories/'' @ interpolate (args ''workspace'') @ ''/'' @
                    interpolate (args ''repo_slug'')) no_config] \<and>
   (\<forall>msg. fst (call_getRepository srv (Some args) (issued, w)) \<noteq> Inl (McpError InvalidParams msg)) \<and>
   ((\<exists>e. fst (srv (Get (''/repositories/'' @ interpolate (args ''workspace'') @ ''/'' @
                    interpolate (args ''repo_slug'')) no_config) w) = Inl e \<and>
          fst (call_getRepository srv (Some args) (issued, w)) =
            Inl (McpError InternalError (''Failed to get repository: '' @ error_message e))) \<or>
    (\<exists>d. fst (srv (Get (''/repositories/'' @ interpolate (args ''workspace'') @ ''/'' @
                    interpolate (args ''repo_slug'')) no_config) w) = Inr d \<and>
          fst (call_getRepository srv (Some args) (issued, w)) = Inr (Stringified d)))"
proof -
  obtain answer w' where
    a: "srv (Get (''/repositories/'' @ interpolate (args ''workspace'') @ ''/'' @
                    interpolate (args ''repo_slug'')) no_config) w = (answer, w')"
    by (cases "srv (Get (''/repositories/'' @ interpolate (args ''workspace'') @ ''/'' @
                    interpolate (args ''repo_slug'')) no_config) w")
  show ?thesis
  proof (cases answer)
    case (Inl e)
    with a show ?thesis
      by (simp add: call_getRepository_def getRepository_def api_request_def
          tool_execution_error_def)
  next
    case (Inr d)
    with a show ?thesis
      by (simp add: call_getRepository_def getRepository_def api_request_def)
  qed
qed

theorem get_repository_validates_nothing_witness:
  "fst (snd (call_getRepository example_server (Some [''workspace'' \<mapsto> ''ws'']) ([], []))) =
     [Get ''/repositories/ws/undefined'' no_config] \<and>
   fst (call_getRepository example_server (Some [''workspace'' \<mapsto> ''ws'']) ([], [])) \<noteq>
     Inl (McpError InvalidParams ''repo_slug is required'')"
  using get_repository_validates_nothing
    [where srv = example_server and args = "[''workspace'' \<mapsto> ''ws'']" and issued = "[]"
       and w = "[]"]
  by (simp add: interpolate_def)

text \<open>
  Called without \<^verbatim>\<open>repo_slug\<close>, the method requests \<^verbatim>\<open>/repositories/ws/undefined\<close>, and the
  error it ends with is the \<^verbatim>\<open>InternalError\<close> made from the failed request.
\<close>

theorem get_repository_missing_slug_counterexample:
  "fst (snd (call_getRepository example_server (Some [''workspace'' \<mapsto> ''ws'']) ([], []))) =
     [Get ''/repositories/ws/undefined''
        \<lparr>params = [], headers = [], responseType = None, maxRedirects = None\<rparr>] \<and>
   fst (call_getRepository example_server (Some [''workspace'' \<mapsto> ''ws'']) ([], [])) =
     Inl (McpError InternalError ''Failed to get repository: Request failed with status code 404'')"
  by (simp add: call_getRepository_def getRepository_def api_request_def example_server_def
      interpolate_def tool_execution_error_def not_found_def no_config_def)

text \<open>
  Claim C7. When the pull request fetched first carries the source commit hash \<open>S\<close> and the
  destination commit hash \<open>D\<close>, the second request of \<^verbatim>\<open>getPullRequestDiff\<close> goes to the diff
  URL with \<open>S\<close> and \<open>D\<close> in its path and \<^verbatim>\<open>from_pullrequest_id\<close> set to the pull request id,
  with the header \<^verbatim>\<open>Accept: text/plain\<close> and at most 5 redirects; when it is answered, the
  method returns the body of the response as it is.
\<close>

theorem pull_request_diff_second_request:
  assumes "srv (Get (pull_request_url workspace repo_slug pull_request_id) no_config) w =
             (Inr (PullRequestResource pr), w1)"
    and "source_commit pr = Commit (Some S)" and "destination_commit pr = Commit (Some D)"
    and "srv (Get (''/repositories/'' @ interpolate workspace @ ''/'' @ interpolate repo_slug @ ''/diff/''
                   @ interpolate workspace @ ''/'' @ interpolate repo_slug @ '':'' @ S @ ''%0D'' @ D
                   @ ''?from_pullrequest_id='' @ interpolate pull_request_id @ ''&topic=true'')
               \<lparr>params = [], headers = [(''Accept'', ''text/plain'')], responseType = Some ''text'',
                maxRedirects = Some 5\<rparr>) w1 = (answer, w2)"
  shows "snd (getPullRequestDiff srv workspace repo_slug pull_request_id (issued, w)) =
           (issued @
             [Get (pull_request_url workspace repo_slug pull_request_id) no_config,
              Get (''/repositories/'' @ interpolate workspace @ ''/'' @ interpolate repo_slug @ ''/diff/''
                   @ interpolate workspace @ ''/'' @ interpolate repo_slug @ '':'' @ S @ ''%0D'' @ D
                   @ ''?from_pullrequest_id='' @ interpolate pull_request_id @ ''&topic=true'')
                \<lparr>params = [], headers = [(''Accept'', ''text/plain'')], responseType = Some ''text'',
                 maxRedirects = Some 5\<rparr>], w2) \<and>
         fst (getPullRequestDiff srv workspace repo_slug pull_request_id (issued, w)) =
           (case answer of
              Inl e \<Rightarrow> Inl (McpError InternalError (''Failed to get pull request diff: '' @ error_message e))
            | Inr body \<Rightarrow> Inr (Verbatim body))"
  using assms
  by (cases answer)
    (simp_all add: getPullRequestDiff_def api_request_def diff_url_def diff_config_def
      diff_failed_def interpolate_def)

theorem pull_request_diff_second_request_witness:
  "getPullRequestDiff example_server (Some ''ws'') (Some ''alpha'') (Some ''7'') ([], []) =
     (Inr (Verbatim (TextBody ''diff --git a/f b/f'')),
      ([Get ''/repositories/ws/alpha/pullrequests/7'' no_config,
        Get ''/repositories/ws/alpha/diff/ws/alpha:abc123%0Ddef456?from_pullrequest_id=7&topic=true''
          \<lparr>params = [], headers = [(''Accept'', ''text/plain'')], responseType = Some ''text'',
           maxRedirects = Some 5\<rparr>], []))"
proof -
  have 1: "example_server
      (Get (pull_request_url (Some ''ws'') (Some ''alpha'') (Some ''7'')) no_config) [] =
      (Inr (PullRequestResource
         \<lparr>source_commit = Commit (Some ''abc123''), destination_commit = Commit (Some ''def456'')\<rparr>), [])"
    by (simp add: example_server_def pull_request_url_def interpolate_def)
  have 2: "source_commit
      \<lparr>source_commit = Commit (Some ''abc123''), destination_commit = Commit (Some ''def456'')\<rparr> =
      Commit (Some ''abc123'')"
    and 3: "destination_commit
      \<lparr>source_commit = Commit (Some ''abc123''), destination_commit = Commit (Some ''def456'')\<rparr> =
      Commit (Some ''def456'')"
    by simp_all
  have 4: "example_server
      (Get (''/repositories/'' @ interpolate (Some ''ws'') @ ''/'' @ interpolate (Some ''alpha'') @ ''/diff/''
              @ interpolate (Some ''ws'') @ ''/'' @ interpolate (Some ''alpha'') @ '':'' @ ''abc123''
              @ ''%0D'' @ ''def456'' @ ''?from_pullrequest_id='' @ interpolate (Some ''7'') @ ''&topic=true'')
         \<lparr>params = [], headers = [(''Accept'', ''text/plain'')], responseType = Some ''text'',
          maxRedirects = Some 5\<rparr>) [] = (Inr (TextBody ''diff --git a/f b/f''), [])"
    by (simp add: example_server_def interpolate_def)
  from pull_request_diff_second_request
    [where srv = example_server and workspace = "Some ''ws''" and repo_slug = "Some ''alpha''"
       and pull_request_id = "Some ''7''" and w = "[]" and issued = "[]", OF 1 2 3 4]
  show ?thesis
    by (simp add: prod_eq_iff pull_request_url_def interpolate_def)
qed

text \<open>
  Claim C8. When the comment listing of the pull request has no comment with
  \<^verbatim>\<open>pending = true\<close>, \<^verbatim>\<open>publishPendingComments\<close> returns the message that nothing was found to
  publish, and the listing is the only request it issues: no comment is updated, and the
  server is in the state the listing request left it in.
\<close>

theorem publish_without_pending_comments:
  assumes "srv (Get (comments_url workspace repo_slug pull_request_id) no_config) w = (Inr page, w')"
    and "filter (\<lambda>c. comment_pending c = Some True)
           (case comment_values page of None \<Rightarrow> [] | Some cs \<Rightarrow> cs) = []"
  shows "publishPendingComments srv workspace repo_slug pull_request_id (issued, w) =
           (Inr (Message ''No pending comments found to publish.''),
            (issued @ [Get (comments_url workspace repo_slug pull_request_id) no_config], w'))"
proof -
  from assms(2) have "pending_comments page = []"
    by (simp add: pending_comments_def is_pending_def [abs_def])
  with assms(1) show ?thesis
    by (simp add: publishPendingComments_def api_request_def)
qed

theorem publish_without_pending_comments_witness:
  "publishPendingComments example_server (Some ''ws'') (Some ''alpha'') (Some ''7'')
      ([], [published_comment]) =
     (Inr (Message ''No pending comments found to publish.''),
      ([Get ''/repositories/ws/alpha/pullrequests/7/comments'' no_config], [published_comment]))"
proof -
  have 1: "example_server
      (Get (comments_url (Some ''ws'') (Some ''alpha'') (Some ''7'')) no_config) [published_comment] =
      (Inr (CommentPage (Some [published_comment])), [published_comment])"
    by (simp add: example_server_def comments_url_def pull_request_url_def interpolate_def)
  have 2: "filter (\<lambda>c. comment_pending c = Some True)
      (case comment_values (CommentPage (Some [published_comment])) of None \<Rightarrow> [] | Some cs \<Rightarrow> cs) = []"
    by (simp add: published_comment_def)
  from publish_without_pending_comments
    [where srv = example_server and workspace = "Some ''ws''" and repo_slug = "Some ''alpha''"
       and pull_request_id = "Some ''7''" and w = "[published_comment]" and issued = "[]", OF 1 2]
  show ?thesis
    by (simp add: comments_url_def pull_request_url_def interpolate_def)
qed

text \<open>
  Claim C9. Whatever its arguments, \<^verbatim>\<open>createPullRequest\<close> issues one request, a \<^verbatim>\<open>POST\<close> whose
  body has \<^verbatim>\<open>close_source_branch\<close> set to true; so does \<^verbatim>\<open>createDraftPullRequest\<close>, which
  calls it. No argument of either tool reaches that field.
\<close>

theorem create_pull_request_closes_source_branch:
  "fst (snd (createPullRequest srv workspace repo_slug title description sourceBranch targetBranch
               reviewers_arg draft_arg (issued, w))) =
     issued @
       [Post (''/repositories/'' @ interpolate workspace @ ''/'' @ interpolate repo_slug @ ''/pullrequests'')
          (PullRequestBody
             \<lparr>body_title = title, body_description = description,
              source_branch_name = sourceBranch, destination_branch_name = targetBranch,
              reviewers = (case reviewers_arg of None \<Rightarrow> [] | Some usernames \<Rightarrow> usernames),
              close_source_branch = True, draft = (draft_arg = Some True)\<rparr>)] \<and>
   fst (snd (createDraftPullRequest srv workspace repo_slug title description sourceBranch targetBranch
               reviewers_arg (issued, w))) =
     issued @
       [Post (''/repositories/'' @ interpolate workspace @ ''/'' @ interpolate repo_slug @ ''/pullrequests'')
          (PullRequestBody
             \<lparr>body_title = title, body_description = description,
              source_branch_name = sourceBranch, destination_branch_name = targetBranch,
              reviewers = (case reviewers_arg of None \<Rightarrow> [] | Some usernames \<Rightarrow> usernames),
              close_source_branch = True, draft = True\<rparr>)]"
proof -
  have sent: "fst (snd (createPullRequest srv workspace repo_slug title description sourceBranch
                 targetBranch reviewers_arg d (issued, w))) =
     issued @
       [Post (''/repositories/'' @ interpolate workspace @ ''/'' @ interpolate repo_slug @ ''/pullrequests'')
          (PullRequestBody
             \<lparr>body_title = title, body_description = description,
              source_branch_name = sourceBranch, destination_branch_name = targetBranch,
              reviewers = (case reviewers_arg of None \<Rightarrow> [] | Some usernames \<Rightarrow> usernames),
              close_source_branch = True, draft = (d = Some True)\<rparr>)]" for d
    by (simp add: createPullRequest_def api_request_def Let_def split: prod.splits sum.splits)
  have "snd (createDraftPullRequest srv workspace repo_slug title description sourceBranch targetBranch
               reviewers_arg (issued, w)) =
        snd (createPullRequest srv workspace repo_slug title description sourceBranch targetBranch
               reviewers_arg (Some True) (issued, w))"
    by (simp add: createDraftPullRequest_def split: prod.splits sum.splits)
  with sent [of draft_arg] sent [of "Some True"] show ?thesis by simp
qed

theorem create_pull_request_closes_source_branch_witness:
  "createPullRequest example_server (Some ''ws'') (Some ''alpha'') (Some ''fix'') (Some ''a fix'')
      (Some ''feature'') (Some ''main'') None (Some False) ([], []) =
     (Inr (Stringified (OtherJson ''created'')),
      ([Post ''/repositories/ws/alpha/pullrequests''
          (PullRequestBody
             \<lparr>body_title = Some ''fix'', body_description = Some ''a fix'',
              source_branch_name = Some ''feature'', destination_branch_name = Some ''main'',
              reviewers = [], close_source_branch = True, draft = False\<rparr>)], []))"
proof -
  have "fst (createPullRequest example_server (Some ''ws'') (Some ''alpha'') (Some ''fix'') (Some ''a fix'')
      (Some ''feature'') (Some ''main'') None (Some False) ([], [])) =
      Inr (Stringified (OtherJson ''created''))"
    and "snd (snd (createPullRequest example_server (Some ''ws'') (Some ''alpha'') (Some ''fix'')
      (Some ''a fix'') (Some ''feature'') (Some ''main'') None (Some False) ([], []))) = []"
    by (simp_all add: createPullRequest_def api_request_def example_server_def interpolate_def)
  with create_pull_request_closes_source_branch
    [where srv = example_server and workspace = "Some ''ws''" and repo_slug = "Some ''alpha''"
       and title = "Some ''fix''" and description = "Some ''a fix''"
       and sourceBranch = "Some ''feature''" and targetBranch = "Some ''main''"
       and reviewers_arg = None and draft_arg = "Some False" and issued = "[]" and w = "[]"]
  show ?thesis by (simp add: prod_eq_iff interpolate_def)
qed

text \<open>
  Claim C10, amended. For all arguments, \<^verbatim>\<open>addPendingPullRequestComment\<close> issues the request
  \<^verbatim>\<open>addPullRequestComment\<close> issues with \<^verbatim>\<open>pending\<close> true and leaves the server in the same
  state. When that call returns, it returns the same result. When that call throws an
  error \<open>e\<close>, it throws another one: an \<^verbatim>\<open>InternalError\<close> whose message is
  \<^verbatim>\<open>Failed to add pending pull request comment:\<close> followed by the message of \<open>e\<close>.
\<close>

theorem add_pending_comment_wraps_add_comment:
  "snd (addPendingPullRequestComment srv workspace repo_slug pull_request_id content inline st) =
     snd (addPullRequestComment srv workspace repo_slug pull_request_id content inline (Some True) st) \<and>
   fst (addPendingPullRequestComment srv workspace repo_slug pull_request_id content inline st) =
     (case fst (addPullRequestComment srv workspace repo_slug pull_request_id content inline
                  (Some True) st) of
        Inl e \<Rightarrow>
          Inl (McpError InternalError
                 (''Failed to add pending pull request comment: '' @ error_message e))
      | Inr r \<Rightarrow> Inr r)"
  by (simp add: addPendingPullRequestComment_def split: prod.splits sum.splits)

theorem add_pending_comment_wraps_add_comment_witness:
  "addPendingPullRequestComment example_server (Some ''ws'') (Some ''alpha'') (Some ''7'')
      (Some ''nit'') None ([], []) =
   addPullRequestComment example_server (Some ''ws'') (Some ''alpha'') (Some ''7'')
      (Some ''nit'') None (Some True) ([], []) \<and>
   snd (snd (addPendingPullRequestComment example_server (Some ''ws'') (Some ''alpha'') (Some ''7'')
      (Some ''nit'') None ([], []))) =
     [\<lparr>comment_id = 1, comment_content = ''nit'', comment_pending = Some True, comment_inline = None\<rparr>]"
proof -
  have "fst (addPullRequestComment example_server (Some ''ws'') (Some ''alpha'') (Some ''7'')
      (Some ''nit'') None (Some True) ([], [])) =
      Inr (Stringified (CommentResource
        \<lparr>comment_id = 1, comment_content = ''nit'', comment_pending = Some True, comment_inline = None\<rparr>))"
    and "snd (snd (addPullRequestComment example_server (Some ''ws'') (Some ''alpha'') (Some ''7'')
      (Some ''nit'') None (Some True) ([], []))) =
      [\<lparr>comment_id = 1, comment_content = ''nit'', comment_pending = Some True, comment_inline = None\<rparr>]"
    by (simp_all add: addPullRequestComment_def api_request_def example_server_def comments_url_def
        pull_request_url_def interpolate_def commentData_def)
  with add_pending_comment_wraps_add_comment
    [where srv = example_server and workspace = "Some ''ws''" and repo_slug = "Some ''alpha''"
       and pull_request_id = "Some ''7''" and content = "Some ''nit''" and inline = None
       and st = "([], [])"]
  show ?thesis by (simp add: prod_eq_iff)
qed

text \<open>
  On a pull request the server does not know, both methods fail, with different errors.
\<close>

theorem add_pending_comment_error_counterexample:
  "addPendingPullRequestComment example_server (Some ''ws'') (Some ''alpha'') (Some ''8'')
      (Some ''nit'') None ([], []) \<noteq>
   addPullRequestComment example_server (Some ''ws'') (Some ''alpha'') (Some ''8'')
      (Some ''nit'') None (Some True) ([], []) \<and>
   fst (addPullRequestComment example_server (Some ''ws'') (Some ''alpha'') (Some ''8'')
      (Some ''nit'') None (Some True) ([], [])) =
     Inl (McpError InternalError
       ''Failed to add pull request comment: Request failed with status code 404'') \<and>
   fst (addPendingPullRequestComment example_server (Some ''ws'') (Some ''alpha'') (Some ''8'')
      (Some ''nit'') None ([], [])) =
     Inl (McpError InternalError
       ''Failed to add pending pull request comment: MCP error -32603: Failed to add pull request comment: Request failed with status code 404'')"
  by (simp add: addPendingPullRequestComment_def addPullRequestComment_def api_request_def
      example_server_def comments_url_def pull_request_url_def interpolate_def not_found_def)

end
